theory Spec2Isabelle
  imports Main "HOL-Library.Sublist"
begin

section \<open>The ESLint builder: option resolution and the lint run\<close>

text \<open>
  A shallow embedding of \<^verbatim>\<open>packages/builder/src/utils/eslint-utils.ts\<close> (the resolver
  \<^verbatim>\<open>resolveAndInstantiateESLint\<close>) and of the builder handler that follows it in the same
  source file (the \<^verbatim>\<open>createBuilder\<close> callback and \<^verbatim>\<open>resolveESLintConfigPath\<close>).

  Thrown errors are values: a function that can throw returns \<open>thrown + 'a\<close>. Everything
  the code asks of its surroundings (the file system, the \<^verbatim>\<open>path\<close> module, the installed
  ESLint package, the engine's methods, a few JavaScript built-ins) is a field of the record
  \<open>world\<close>, so that every statement below holds for any behaviour of those collaborators.
\<close>

subsection \<open>JavaScript values\<close>

text \<open>
  A property of the options bag may be \<^verbatim>\<open>undefined\<close>, \<^verbatim>\<open>null\<close> or hold a value; the code
  distinguishes the three (\<^verbatim>\<open>typeof x !== 'undefined'\<close>, \<^verbatim>\<open>x !== undefined\<close>, \<^verbatim>\<open>x || undefined\<close>).
\<close>

datatype 'a nullable = Undefined | Null | Value 'a

text \<open>Truthiness of a possibly missing string: only a non-empty string is truthy.\<close>

fun truthy :: "string nullable \<Rightarrow> bool" where
  "truthy (Value s) = (s \<noteq> [])"
| "truthy Null = False"
| "truthy Undefined = False"

text \<open>\<^verbatim>\<open>x || undefined\<close> on a possibly missing string.\<close>

fun or_undefined :: "string nullable \<Rightarrow> string option" where
  "or_undefined (Value s) = (if s \<noteq> [] then Some s else None)"
| "or_undefined Null = None"
| "or_undefined Undefined = None"

text \<open>\<^verbatim>\<open>!x\<close> on a possibly missing boolean: \<^verbatim>\<open>null\<close> and \<^verbatim>\<open>undefined\<close> are falsy.\<close>

fun not_js :: "bool nullable \<Rightarrow> bool" where
  "not_js (Value b) = (\<not> b)"
| "not_js Null = True"
| "not_js Undefined = True"

text \<open>\<^verbatim>\<open>String.prototype.endsWith\<close>, \<^verbatim>\<open>String.prototype.includes\<close>, \<^verbatim>\<open>Array.prototype.join\<close>
  and \<^verbatim>\<open>String.prototype.split\<close> with a one-character separator.\<close>

definition endsWith :: "string \<Rightarrow> string \<Rightarrow> bool" where
  "endsWith s name = suffix name s"

definition includes_str :: "string \<Rightarrow> string \<Rightarrow> bool" where
  "includes_str s part = sublist part s"

fun join_with :: "string \<Rightarrow> string list \<Rightarrow> string" where
  "join_with sep [] = []"
| "join_with sep [x] = x"
| "join_with sep (x # y # ys) = x @ sep @ join_with sep (y # ys)"

fun split_str :: "char \<Rightarrow> string \<Rightarrow> string list" where
  "split_str sep [] = [[]]"
| "split_str sep (c # cs) =
     (if c = sep then [] # split_str sep cs
      else (case split_str sep cs of
              w # ws \<Rightarrow> (c # w) # ws
            | [] \<Rightarrow> [[c]]))"

text \<open>
  Thrown values. What a collaborator raises is an \<^verbatim>\<open>Error\<close> object with its message, or
  some other value. An error that the code itself makes with \<^verbatim>\<open>new Error(message)\<close> is kept
  apart from the errors of the collaborators: the two are different objects, also when
  their messages agree.
\<close>

datatype raised = RaisedError string | RaisedOther

datatype thrown = Error string | External raised

subsection \<open>The options bag and the session options\<close>

text \<open>
  Modelled from the spec: the declaration of the options bag (the type \<^verbatim>\<open>Schema\<close>, imported
  from \<^verbatim>\<open>../schema\<close>) is missing. Its fields are those that the specification's data model
  lists and that the code reads, under the names the code uses. A field that the code only
  ever reads for its truthiness (\<^verbatim>\<open>!!options.fix\<close>, \<^verbatim>\<open>options.stats && ...\<close>) is a \<open>bool\<close>,
  with a missing value read as \<open>False\<close>; \<open>maxWarnings\<close> is \<open>None\<close> when it is \<^verbatim>\<open>undefined\<close>.
  The source's field \<^verbatim>\<open>fix\<close> is \<open>fix_opt\<close> here.
\<close>

record Schema =
  format :: "string nullable"
  lintFilePatterns :: "string list"
  force :: bool
  quiet :: bool
  maxWarnings :: "int option"
  silent :: bool
  fix_opt :: bool
  cache :: bool
  outputFile :: "string nullable"
  cacheLocation :: "string nullable"
  cacheStrategy :: "string nullable"
  eslintConfig :: "string nullable"
  ignorePath :: "string nullable"
  noEslintrc :: bool
  rulesdir :: "string list nullable"
  resolvePluginsRelativeTo :: "string nullable"
  reportUnusedDisableDirectives :: "string nullable"
  useEslintrc :: "bool nullable"
  stats :: bool
  noConfigLookup :: "bool nullable"

text \<open>
  The value of \<^verbatim>\<open>overrideConfigFile\<close>, of type \<^verbatim>\<open>string | undefined | boolean\<close>.
\<close>

datatype override_config = Path string | Flag bool | Absent

text \<open>
  The object handed to the engine's constructor (\<^verbatim>\<open>ESLint.Options\<close>). The keys that only
  the legacy branch assigns are grouped in \<open>legacy_options\<close>; \<open>eslint_legacy = None\<close> and
  \<open>eslint_stats = None\<close> mean that those keys were never assigned.
\<close>

record legacy_options =
  rulePaths :: "string list"
  legacy_resolvePluginsRelativeTo :: "string option"
  legacy_ignorePath :: "string option"
  legacy_useEslintrc :: bool
  legacy_reportUnusedDisableDirectives :: "string option"

record ESLintOptions =
  eslint_fix :: bool
  eslint_cache :: bool
  eslint_cacheLocation :: "string option"
  eslint_cacheStrategy :: "string option"
  errorOnUnmatchedPattern :: bool
  eslint_stats :: "bool option"
  overrideConfigFile :: override_config
  eslint_legacy :: "legacy_options option"

subsection \<open>The installed engine\<close>

text \<open>
  An engine class as far as the code looks at it: its static \<^verbatim>\<open>version\<close>. The module
  \<^verbatim>\<open>eslint\<close> exports the class \<^verbatim>\<open>ESLint\<close> and, from 8.57.0 on, the function \<^verbatim>\<open>loadESLint\<close>.
  In the module and in \<open>import_eslint\<close> and \<open>require_FlatESLint\<close>, \<open>None\<close> stands for a call
  that throws (the code catches whatever these throw). The fields of \<open>world\<close> that stand for
  a call made for its effect (\<open>new_ESLint\<close>, the constructor of the engine class;
  \<open>outputFixes\<close>, \<open>mkdirSync\<close>, \<open>writeFileSync\<close>) yield what the call raises, \<open>None\<close> when it
  returns; \<open>lintFiles\<close>, \<open>loadFormatter\<close> and the \<^verbatim>\<open>format\<close> method of the formatter it loads
  yield what they raise or what they return.
\<close>

record ESLintClass =
  version :: "string option"

record eslint_module =
  loadESLint :: "(bool \<Rightarrow> ESLintClass option) option"
  ESLint_export :: ESLintClass

record LintMessage =
  severity :: int
  ruleId :: "string option"
  line :: int
  column :: int
  message :: string

record LintResult =
  filePath :: string
  messages :: "LintMessage list"
  errorCount :: int
  warningCount :: int

record world =
  existsSync :: "string \<Rightarrow> bool"
  path_join :: "string \<Rightarrow> string \<Rightarrow> string"
  path_resolve :: "string \<Rightarrow> string \<Rightarrow> string"
  path_dirname :: "string \<Rightarrow> string"
  JSON_stringify :: "string \<Rightarrow> string"
  Number :: "string \<Rightarrow> int option"
  number_toString :: "int \<Rightarrow> string"
  import_eslint :: "eslint_module option"
  require_FlatESLint :: "ESLintClass option"
  new_ESLint :: "ESLintClass \<Rightarrow> ESLintOptions \<Rightarrow> raised option"
  lintFiles :: "ESLintOptions \<Rightarrow> string list \<Rightarrow> raised + LintResult list"
  isPathIgnored :: "ESLintOptions \<Rightarrow> string \<Rightarrow> bool"
  outputFixes :: "LintResult list \<Rightarrow> raised option"
  loadFormatter :: "string nullable \<Rightarrow> raised + (LintResult list \<Rightarrow> raised + string)"
  mkdirSync :: "string \<Rightarrow> raised option"
  writeFileSync :: "string \<Rightarrow> string \<Rightarrow> raised option"

subsection \<open>The resolver\<close>

definition supportedFlatConfigNames :: "string list" where
  "supportedFlatConfigNames =
     [''eslint.config.js'', ''eslint.config.mjs'', ''eslint.config.cjs'',
      ''eslint.config.ts'', ''eslint.config.mts'', ''eslint.config.cts'']"

definition unable_to_find_message :: string where
  "unable_to_find_message = ''Unable to find ESLint. Ensure ESLint is installed.''"

definition resolveESLintClass :: "world \<Rightarrow> bool \<Rightarrow> thrown + ESLintClass" where
  "resolveESLintClass w useFlatConfig =
     (case import_eslint w of
        None \<Rightarrow> Inl (Error unable_to_find_message)
      | Some eslint \<Rightarrow>
          (case loadESLint eslint of
             Some load \<Rightarrow>
               (case load useFlatConfig of
                  None \<Rightarrow> Inl (Error unable_to_find_message)
                | Some cls \<Rightarrow> Inr cls)
           | None \<Rightarrow>
               if \<not> useFlatConfig then Inr (ESLint_export eslint)
               else (case require_FlatESLint w of
                       None \<Rightarrow> Inl (Error unable_to_find_message)
                     | Some cls \<Rightarrow> Inr cls)))"

definition stats_message :: string where
  "stats_message = ''The --stats option requires ESLint Flat Config''"

definition config_name_message :: string where
  "config_name_message =
     ''When using the new Flat Config with ESLint, all configs must be named '' @
     join_with '' or '' supportedFlatConfigNames @
     '', and .eslintrc files may not be used. See https://eslint.org/docs/latest/use/configure/configuration-files''"

definition useEslintrc_message :: string where
  "useEslintrc_message =
     ''For Flat Config, the `useEslintrc` option is not applicable. See https://eslint.org/docs/latest/use/configure/configuration-files-new''"

definition resolvePluginsRelativeTo_message :: string where
  "resolvePluginsRelativeTo_message =
     ''For Flat Config, ESLint removed `resolvePluginsRelativeTo` and so it is not supported as an option. See https://eslint.org/docs/latest/use/configure/configuration-files-new''"

definition ignorePath_message :: string where
  "ignorePath_message =
     ''For Flat Config, ESLint removed `ignorePath` and so it is not supported as an option. See https://eslint.org/docs/latest/use/configure/configuration-files-new''"

definition reportUnusedDisableDirectives_message :: string where
  "reportUnusedDisableDirectives_message =
     ''For Flat Config, ESLint removed `reportUnusedDisableDirectives` and so it is not supported as an option. See https://eslint.org/docs/latest/use/configure/configuration-files-new''"

text \<open>
  The guard of the config-name check: flat format, a truthy path, and no supported name
  that the path ends with.
\<close>

definition config_name_rejected :: "string option \<Rightarrow> bool \<Rightarrow> bool" where
  "config_name_rejected eslintConfigPath useFlatConfig =
     (case eslintConfigPath of
        None \<Rightarrow> False
      | Some p \<Rightarrow>
          useFlatConfig \<and> p \<noteq> [] \<and>
          \<not> list_ex (\<lambda>name. endsWith p name) supportedFlatConfigNames)"

text \<open>The object literal that both branches start from.\<close>

definition base_options :: "Schema \<Rightarrow> ESLintOptions" where
  "base_options options =
     \<lparr> eslint_fix = fix_opt options,
       eslint_cache = cache options,
       eslint_cacheLocation = or_undefined (cacheLocation options),
       eslint_cacheStrategy = or_undefined (cacheStrategy options),
       errorOnUnmatchedPattern = False,
       eslint_stats = None,
       overrideConfigFile = Absent,
       eslint_legacy = None \<rparr>"

text \<open>The resolution of \<^verbatim>\<open>overrideConfigFile\<close> in the flat branch.\<close>

definition flat_overrideConfigFile :: "string option \<Rightarrow> bool nullable \<Rightarrow> override_config" where
  "flat_overrideConfigFile eslintConfigPath noLookup =
     (case noLookup of
        Undefined \<Rightarrow> (case eslintConfigPath of Some p \<Rightarrow> Path p | None \<Rightarrow> Absent)
      | _ \<Rightarrow>
          (let configLookup = not_js noLookup;
               overrideConfigFile =
                 (case eslintConfigPath of
                    Some p \<Rightarrow> Path p
                  | None \<Rightarrow> Flag (\<not> configLookup))
           in if overrideConfigFile = Flag False then Absent else overrideConfigFile))"

text \<open>
  What the resolver returns: the engine class and the instance, the latter represented by
  the options it was constructed with.
\<close>

record instantiated =
  ESLint :: ESLintClass
  eslint :: ESLintOptions

text \<open>\<^verbatim>\<open>new ESLint(eslintOptions)\<close>, and the object the resolver returns when it succeeds.\<close>

definition construct :: "world \<Rightarrow> ESLintClass \<Rightarrow> ESLintOptions \<Rightarrow> thrown + instantiated" where
  "construct w cls eslintOptions =
     (case new_ESLint w cls eslintOptions of
        Some e \<Rightarrow> Inl (External e)
      | None \<Rightarrow> Inr \<lparr> ESLint = cls, eslint = eslintOptions \<rparr>)"

definition resolveAndInstantiateESLint ::
  "world \<Rightarrow> string option \<Rightarrow> Schema \<Rightarrow> bool \<Rightarrow> thrown + instantiated" where
  "resolveAndInstantiateESLint w eslintConfigPath options useFlatConfig =
     (if stats options \<and> \<not> useFlatConfig then Inl (Error stats_message)
      else if config_name_rejected eslintConfigPath useFlatConfig
        then Inl (Error config_name_message)
      else (case resolveESLintClass w useFlatConfig of
        Inl e \<Rightarrow> Inl e
      | Inr cls \<Rightarrow>
          (let eslintOptions = base_options options in
           if useFlatConfig then
             (if useEslintrc options \<noteq> Undefined then Inl (Error useEslintrc_message)
              else if resolvePluginsRelativeTo options \<noteq> Undefined
                then Inl (Error resolvePluginsRelativeTo_message)
              else if ignorePath options \<noteq> Undefined then Inl (Error ignorePath_message)
              else if truthy (reportUnusedDisableDirectives options)
                then Inl (Error reportUnusedDisableDirectives_message)
              else construct w cls
                     (eslintOptions
                        \<lparr> eslint_stats := Some (stats options),
                          overrideConfigFile :=
                            flat_overrideConfigFile eslintConfigPath (noConfigLookup options) \<rparr>))
           else
             construct w cls
               (eslintOptions
                  \<lparr> overrideConfigFile :=
                      (case eslintConfigPath of Some p \<Rightarrow> Path p | None \<Rightarrow> Absent),
                    eslint_legacy := Some
                      \<lparr> rulePaths = (case rulesdir options of Value ds \<Rightarrow> ds | _ \<Rightarrow> []),
                        legacy_resolvePluginsRelativeTo =
                          or_undefined (resolvePluginsRelativeTo options),
                        legacy_ignorePath = or_undefined (ignorePath options),
                        legacy_useEslintrc = (\<not> noEslintrc options),
                        legacy_reportUnusedDisableDirectives =
                          or_undefined (reportUnusedDisableDirectives options) \<rparr> \<rparr>))))"

subsection \<open>The builder handler\<close>

text \<open>
  What the handler reads of the builder context: the workspace root, \<^verbatim>\<open>context.target?.project\<close>
  and the \<^verbatim>\<open>root\<close> of the metadata that \<^verbatim>\<open>context.getProjectMetadata\<close> returns for a project.
\<close>

record builder_context =
  workspaceRoot :: string
  target_project :: "string option"
  getProjectMetadata_root :: "string \<Rightarrow> string option"

record BuilderOutput =
  success :: bool
  error :: "string option"

text \<open>The handler's actions on its surroundings, in the order in which they happen.\<close>

datatype effect =
    Chdir string
  | ConsoleInfo string
  | ConsoleWarn string
  | ConsoleError string
  | LintFiles "string list"
  | OutputFixes "LintResult list"
  | MkdirSync string
  | WriteFileSync string string

text \<open>The effects that run the lint pass or write to the file system.\<close>

fun lints_or_writes :: "effect \<Rightarrow> bool" where
  "lints_or_writes (LintFiles patterns) = True"
| "lints_or_writes (OutputFixes results) = True"
| "lints_or_writes (MkdirSync dir) = True"
| "lints_or_writes (WriteFileSync file text) = True"
| "lints_or_writes (Chdir dir) = False"
| "lints_or_writes (ConsoleInfo text) = False"
| "lints_or_writes (ConsoleWarn text) = False"
| "lints_or_writes (ConsoleError text) = False"

definition resolveESLintConfigPath :: "world \<Rightarrow> string \<Rightarrow> string option" where
  "resolveESLintConfigPath w projectRoot =
     (let rcPath = path_join w projectRoot ''.eslintrc.json'' in
      if existsSync w rcPath then Some rcPath
      else let jsPath = path_join w projectRoot ''eslint.config.js'' in
      if existsSync w jsPath then Some jsPath
      else let mjsPath = path_join w projectRoot ''eslint.config.mjs'' in
      if existsSync w mjsPath then Some mjsPath
      else let cjsPath = path_join w projectRoot ''eslint.config.cjs'' in
      if existsSync w cjsPath then Some cjsPath
      else None)"

text \<open>The version gate: the condition under which the handler throws.\<close>

definition version_message :: string where
  "version_message = ''ESLint must be version 7.6 or higher.''"

definition number_lt :: "int option \<Rightarrow> int \<Rightarrow> bool" where
  "number_lt x n = (case x of None \<Rightarrow> False | Some a \<Rightarrow> a < n)"

definition number_eq :: "int option \<Rightarrow> int \<Rightarrow> bool" where
  "number_eq x n = (case x of None \<Rightarrow> False | Some a \<Rightarrow> a = n)"

definition version_rejected :: "world \<Rightarrow> ESLintClass \<Rightarrow> bool" where
  "version_rejected w cls =
     (case version cls of
        None \<Rightarrow> True
      | Some v \<Rightarrow>
          (case split_str (CHR ''.'') v of
             major # minor # rest \<Rightarrow>
               number_lt (Number w major) 7 \<or>
               (number_eq (Number w major) 7 \<and> number_lt (Number w minor) 6)
           | _ \<Rightarrow> True))"

text \<open>The handling of an empty result: the ignored patterns and the error thrown.\<close>

definition ignoredPatterns :: "world \<Rightarrow> ESLintOptions \<Rightarrow> string list \<Rightarrow> string list" where
  "ignoredPatterns w inst patterns =
     map (\<lambda>pattern. ''- '' @ [CHR 0x27] @ pattern @ [CHR 0x27])
       (List.map_filter (\<lambda>x. case x of Some pattern \<Rightarrow> if pattern \<noteq> [] then Some pattern else None
                                     | None \<Rightarrow> None)
          (map (\<lambda>pattern. if isPathIgnored w inst pattern then Some pattern else None) patterns))"

definition all_ignored_message :: "string list \<Rightarrow> string" where
  "all_ignored_message ignored =
     ''All files matching the following patterns are ignored:'' @ [CHR 0x0A] @
     join_with [CHR 0x0A] ignored @ [CHR 0x0A, CHR 0x0A] @
     ''Please check your '' @ [CHR 0x27] @ ''.eslintignore'' @ [CHR 0x27] @ '' file.''"

definition nothing_to_lint_message :: string where
  "nothing_to_lint_message =
     ''Invalid lint configuration. Nothing to lint. Please check your lint target pattern(s).''"

definition empty_result_error :: "world \<Rightarrow> ESLintOptions \<Rightarrow> Schema \<Rightarrow> thrown" where
  "empty_result_error w inst options =
     (let ignored = ignoredPatterns w inst (lintFilePatterns options) in
      if ignored \<noteq> [] then Error (all_ignored_message ignored)
      else Error nothing_to_lint_message)"

text \<open>
  The \<^verbatim>\<open>map\<close> over the results: it adds every result's counts to the two running totals
  and yields the result, its messages narrowed under \<^verbatim>\<open>quiet\<close>, or \<^verbatim>\<open>null\<close>.
\<close>

fun aggregate ::
  "bool \<Rightarrow> LintResult list \<Rightarrow> int \<Rightarrow> int \<Rightarrow> int \<times> int \<times> LintResult option list" where
  "aggregate reportOnlyErrors [] totalErrors totalWarnings = (totalErrors, totalWarnings, [])"
| "aggregate reportOnlyErrors (result # rest) totalErrors totalWarnings =
     (let totalErrors' = totalErrors + errorCount result;
          totalWarnings' = totalWarnings + warningCount result;
          mapped =
            (if errorCount result \<noteq> 0 \<or> (warningCount result \<noteq> 0 \<and> \<not> reportOnlyErrors)
             then Some (if reportOnlyErrors
                        then result\<lparr>messages := filter (\<lambda>m. severity m = 2) (messages result)\<rparr>
                        else result)
             else None)
      in case aggregate reportOnlyErrors rest totalErrors' totalWarnings' of
           (te, tw, out) \<Rightarrow> (te, tw, mapped # out))"

definition tooManyWarnings :: "Schema \<Rightarrow> int \<Rightarrow> bool" where
  "tooManyWarnings options totalWarnings =
     (case maxWarnings options of
        None \<Rightarrow> False
      | Some m \<Rightarrow> m \<ge> 0 \<and> totalWarnings > m)"

definition too_many_warnings_message :: "world \<Rightarrow> int \<Rightarrow> int option \<Rightarrow> string" where
  "too_many_warnings_message w totalWarnings limit =
     ''Found '' @ number_toString w totalWarnings @
     '' warnings, which exceeds your configured limit ('' @
     (case limit of Some m \<Rightarrow> number_toString w m | None \<Rightarrow> ''undefined'') @
     ''). Either increase your maxWarnings limit or fix some of the lint warnings.''"

text \<open>
  The writing or printing of the formatted results: the effects, and what was raised.
\<close>

definition output_results ::
  "world \<Rightarrow> Schema \<Rightarrow> string \<Rightarrow> string \<Rightarrow> effect list \<times> raised option" where
  "output_results w options systemRoot formattedResults =
     (case outputFile options of
        Value f \<Rightarrow>
          if f \<noteq> [] then
            (let pathToOutputFile = path_join w systemRoot f;
                 dir = path_dirname w pathToOutputFile
             in case mkdirSync w dir of
                  Some e \<Rightarrow> ([MkdirSync dir], Some e)
                | None \<Rightarrow>
                    ([MkdirSync dir, WriteFileSync pathToOutputFile formattedResults],
                     writeFileSync w pathToOutputFile formattedResults))
          else ([ConsoleInfo formattedResults], None)
      | _ \<Rightarrow> ([ConsoleInfo formattedResults], None))"

text \<open>
  From \<^verbatim>\<open>ESLint.outputFixes\<close> to the returned outcome, for a non-empty list of results: the
  effects, and either what was thrown on the way or the outcome returned at the end.
\<close>

definition report ::
  "world \<Rightarrow> Schema \<Rightarrow> string \<Rightarrow> bool \<Rightarrow> LintResult list \<Rightarrow>
     effect list \<times> (thrown + BuilderOutput)" where
  "report w options systemRoot printInfo lintResults =
     (case outputFixes w lintResults of
        Some e \<Rightarrow> ([OutputFixes lintResults], Inl (External e))
      | None \<Rightarrow>
     (case loadFormatter w (format options) of
        Inl e \<Rightarrow> ([OutputFixes lintResults], Inl (External e))
      | Inr formatter \<Rightarrow>
     (let reportOnlyErrors = quiet options in
      case aggregate reportOnlyErrors lintResults 0 0 of
        (totalErrors, totalWarnings, mapped) \<Rightarrow>
          (let finalLintResults = List.map_filter (\<lambda>x. x) mapped;
               hasWarningsToPrint = (totalWarnings > 0 \<and> \<not> reportOnlyErrors);
               hasErrorsToPrint = (totalErrors > 0)
           in case formatter finalLintResults of
                Inl e \<Rightarrow> ([OutputFixes lintResults], Inl (External e))
              | Inr formattedResults \<Rightarrow>
           (case output_results w options systemRoot formattedResults of
              (written, Some e) \<Rightarrow> ([OutputFixes lintResults] @ written, Inl (External e))
            | (written, None) \<Rightarrow>
           (let tooMany = tooManyWarnings options totalWarnings
            in ([OutputFixes lintResults] @ written @
               (if hasWarningsToPrint \<and> printInfo
                then [ConsoleWarn (''Lint warnings found in the listed files.'' @ [CHR 0x0A])]
                else []) @
               (if hasErrorsToPrint \<and> printInfo
                then [ConsoleError (''Lint errors found in the listed files.'' @ [CHR 0x0A])]
                else []) @
               (if (totalWarnings = 0 \<or> reportOnlyErrors) \<and> totalErrors = 0 \<and> printInfo
                then [ConsoleInfo (''All files pass linting.'' @ [CHR 0x0A])]
                else []) @
               (if tooMany \<and> printInfo
                then [ConsoleError
                        (too_many_warnings_message w totalWarnings (maxWarnings options))]
                else []),
               Inr \<lparr> success = (force options \<or> (totalErrors = 0 \<and> \<not> tooMany)),
                     error = None \<rparr>)))))))"

text \<open>The branch that catches the missing type information error of \<^verbatim>\<open>lintFiles\<close>.\<close>

definition type_information_marker :: string where
  "type_information_marker =
     ''You must therefore provide a value for the '' @ [CHR 0x22] @ ''parserOptions.project'' @
     [CHR 0x22] @ '' property for '' @ [CHR 0x40] @ ''typescript-eslint/parser''"

definition type_information_message :: "string \<Rightarrow> string" where
  "type_information_message shown =
     [CHR 0x0A] @
     ''Error: You have attempted to use a lint rule which requires the full TypeScript type-checker to be available, but you do not have `parserOptions.project` configured to point at your project tsconfig.json files in the relevant TypeScript file '' @
     [CHR 0x22] @ ''overrides'' @ [CHR 0x22] @ '' block of your project ESLint config '' @
     shown @ [CHR 0x0A, CHR 0x0A] @
     ''For full guidance on how to resolve this issue, please see https://github.com/angular-eslint/angular-eslint/blob/main/docs/RULES_REQUIRING_TYPE_INFORMATION.md'' @
     [CHR 0x0A]"

definition eslintConfigPathForError :: "world \<Rightarrow> builder_context \<Rightarrow> string \<Rightarrow> string" where
  "eslintConfigPathForError w ctxt projectName =
     (case getProjectMetadata_root ctxt projectName of
        None \<Rightarrow> ''for '' @ projectName
      | Some root \<Rightarrow>
          if root \<noteq> [] then
            (case resolveESLintConfigPath w root of Some p \<Rightarrow> p | None \<Rightarrow> [])
          else ''for '' @ projectName)"

definition type_information_failure ::
  "world \<Rightarrow> builder_context \<Rightarrow> string \<Rightarrow> string option \<Rightarrow> effect list \<times> BuilderOutput" where
  "type_information_failure w ctxt projectName eslintConfigPath =
     ([ConsoleError
         (type_information_message
            (case eslintConfigPath of
               Some p \<Rightarrow> if p \<noteq> [] then p else eslintConfigPathForError w ctxt projectName
             | None \<Rightarrow> eslintConfigPathForError w ctxt projectName))],
      \<lparr> success = False, error = None \<rparr>)"

text \<open>
  The constants that the handler binds before it calls the resolver, each a function of
  the handler's arguments: \<^verbatim>\<open>projectName\<close>, \<^verbatim>\<open>printInfo\<close>, \<^verbatim>\<open>eslintConfigPath\<close>, the options
  after the assignment to \<^verbatim>\<open>options.cacheLocation\<close>, and \<^verbatim>\<open>useFlatConfig\<close>.
\<close>

definition projectName :: "builder_context \<Rightarrow> string" where
  "projectName ctxt = (case target_project ctxt of Some p \<Rightarrow> p | None \<Rightarrow> ''<???>'')"

definition printInfo :: "Schema \<Rightarrow> bool" where
  "printInfo options = (truthy (format options) \<and> \<not> silent options)"

definition eslintConfigPath :: "world \<Rightarrow> Schema \<Rightarrow> builder_context \<Rightarrow> string option" where
  "eslintConfigPath w options ctxt =
     (case eslintConfig options of
        Value c \<Rightarrow> if c \<noteq> [] then Some (path_resolve w (workspaceRoot ctxt) c) else None
      | _ \<Rightarrow> None)"

definition with_cacheLocation :: "world \<Rightarrow> Schema \<Rightarrow> builder_context \<Rightarrow> Schema" where
  "with_cacheLocation w options ctxt =
     options\<lparr>cacheLocation :=
       (case cacheLocation options of
          Value l \<Rightarrow> if l \<noteq> [] then Value (path_join w l (projectName ctxt)) else Null
        | _ \<Rightarrow> Null)\<rparr>"

definition useFlatConfig :: "world \<Rightarrow> builder_context \<Rightarrow> bool" where
  "useFlatConfig w ctxt =
     list_ex (\<lambda>name. existsSync w (path_join w (workspaceRoot ctxt) name))
       supportedFlatConfigNames"

text \<open>The effects before the resolver is called, and the call of the resolver.\<close>

definition start_effects :: "world \<Rightarrow> Schema \<Rightarrow> builder_context \<Rightarrow> effect list" where
  "start_effects w options ctxt =
     [Chdir (workspaceRoot ctxt)] @
     (if printInfo options
      then [ConsoleInfo
              ([CHR 0x0A] @ ''Linting '' @ JSON_stringify w (projectName ctxt) @ ''...'')]
      else [])"

definition instantiate :: "world \<Rightarrow> Schema \<Rightarrow> builder_context \<Rightarrow> thrown + instantiated" where
  "instantiate w options ctxt =
     resolveAndInstantiateESLint w (eslintConfigPath w options ctxt)
       (with_cacheLocation w options ctxt) (useFlatConfig w ctxt)"

text \<open>
  The body of the handler's \<^verbatim>\<open>try\<close> block: the effects so far, and either the value thrown
  or the outcome returned.
\<close>

definition try_block ::
  "world \<Rightarrow> Schema \<Rightarrow> builder_context \<Rightarrow> effect list \<times> (thrown + BuilderOutput)" where
  "try_block w options ctxt =
     (let start = start_effects w options ctxt;
          patterns = lintFilePatterns (with_cacheLocation w options ctxt)
      in case instantiate w options ctxt of
           Inl e \<Rightarrow> (start, Inl e)
         | Inr inst \<Rightarrow>
             if version_rejected w (ESLint inst) then (start, Inl (Error version_message))
             else
               (case lintFiles w (eslint inst) patterns of
                  Inl err \<Rightarrow>
                    (case err of
                       RaisedError msg \<Rightarrow>
                         if includes_str msg type_information_marker then
                           (case type_information_failure w ctxt (projectName ctxt)
                                   (eslintConfigPath w options ctxt) of
                              (fx, out) \<Rightarrow> (start @ [LintFiles patterns] @ fx, Inr out))
                         else (start @ [LintFiles patterns], Inl (External err))
                     | RaisedOther \<Rightarrow> (start @ [LintFiles patterns], Inl (External err)))
                | Inr lintResults \<Rightarrow>
                    if lintResults = [] then
                      (start @ [LintFiles patterns],
                       Inl (empty_result_error w (eslint inst)
                              (with_cacheLocation w options ctxt)))
                    else
                      (case report w (with_cacheLocation w options ctxt) (workspaceRoot ctxt)
                              (printInfo options) lintResults of
                         (fx, out) \<Rightarrow> (start @ [LintFiles patterns] @ fx, out))))"

text \<open>The handler: the \<^verbatim>\<open>try\<close> block with its \<^verbatim>\<open>catch\<close>.\<close>

definition handler :: "world \<Rightarrow> Schema \<Rightarrow> builder_context \<Rightarrow> effect list \<times> BuilderOutput" where
  "handler w options ctxt =
     (case try_block w options ctxt of
        (fx, Inr out) \<Rightarrow> (fx, out)
      | (fx, Inl err) \<Rightarrow>
          (fx, \<lparr> success = False,
                 error = Some (case err of
                                 Error msg \<Rightarrow> ''Error when running ESLint: '' @ msg
                               | External (RaisedError msg) \<Rightarrow>
                                   ''Error when running ESLint: '' @ msg
                               | External RaisedOther \<Rightarrow> ''Unknown error'') \<rparr>))"

subsection \<open>An engine that honours \<^verbatim>\<open>errorOnUnmatchedPattern\<close>\<close>



subsection \<open>Concrete inputs\<close>

text \<open>
  Inputs on which the definitions above are run: the empty options bag \<^verbatim>\<open>{}\<close> of the
  repository's tests, and a world whose built-ins read and print decimal numerals, whose
  paths are joined with a slash, whose collaborators raise nothing but what the given
  outcome of the lint pass says, and whose installed engine, files, lint results and
  ignored patterns are given.
\<close>

definition emptySchema :: Schema where
  "emptySchema =
     \<lparr> format = Undefined, lintFilePatterns = [], force = False, quiet = False,
       maxWarnings = None, silent = False, fix_opt = False, cache = False,
       outputFile = Undefined, cacheLocation = Undefined, cacheStrategy = Undefined,
       eslintConfig = Undefined, ignorePath = Undefined, noEslintrc = False,
       rulesdir = Undefined, resolvePluginsRelativeTo = Undefined,
       reportUnusedDisableDirectives = Undefined, useEslintrc = Undefined, stats = False,
       noConfigLookup = Undefined \<rparr>"

definition is_digit :: "char \<Rightarrow> bool" where
  "is_digit c = (48 \<le> (of_char c :: nat) \<and> (of_char c :: nat) \<le> 57)"

definition decimal_Number :: "string \<Rightarrow> int option" where
  "decimal_Number s =
     (if list_all is_digit s
      then Some (foldl (\<lambda>a c. 10 * a + (int (of_char c) - 48)) 0 s)
      else None)"

fun decimal_digits :: "nat \<Rightarrow> string" where
  "decimal_digits n =
     (if n < 10 then [char_of (48 + n)]
      else decimal_digits (n div 10) @ [char_of (48 + n mod 10)])"

definition decimal_toString :: "int \<Rightarrow> string" where
  "decimal_toString i = (if i < 0 then ''-'' @ decimal_digits (nat (- i)) else decimal_digits (nat i))"

definition example_world ::
  "string option \<Rightarrow> string list \<Rightarrow> (raised + LintResult list) \<Rightarrow> string list \<Rightarrow> world" where
  "example_world engine_version files lint_outcome ignored =
     \<lparr> existsSync = (\<lambda>p. p \<in> set files),
       path_join = (\<lambda>a b. a @ ''/'' @ b),
       path_resolve = (\<lambda>a b. a @ ''/'' @ b),
       path_dirname = (\<lambda>p. rev (tl (dropWhile (\<lambda>c. c \<noteq> CHR ''/'') (rev p)))),
       JSON_stringify = (\<lambda>s. [CHR 0x22] @ s @ [CHR 0x22]),
       Number = decimal_Number,
       number_toString = decimal_toString,
       import_eslint = Some \<lparr> loadESLint = Some (\<lambda>flat. Some \<lparr> version = engine_version \<rparr>),
                               ESLint_export = \<lparr> version = engine_version \<rparr> \<rparr>,
       require_FlatESLint = Some \<lparr> version = engine_version \<rparr>,
       new_ESLint = (\<lambda>cls eslintOptions. None),
       lintFiles = (\<lambda>inst patterns. lint_outcome),
       isPathIgnored = (\<lambda>inst pattern. pattern \<in> set ignored),
       outputFixes = (\<lambda>results. None),
       loadFormatter =
         (\<lambda>name. Inr (\<lambda>results. Inr (join_with [CHR 0x0A] (map filePath results)))),
       mkdirSync = (\<lambda>dir. None),
       writeFileSync = (\<lambda>file text. None) \<rparr>"

definition example_context :: builder_context where
  "example_context =
     \<lparr> workspaceRoot = ''/work'', target_project = Some ''app'',
       getProjectMetadata_root = (\<lambda>name. Some ''/work/app'') \<rparr>"

definition example_result :: "string \<Rightarrow> int \<Rightarrow> int \<Rightarrow> LintResult" where
  "example_result file errors warnings =
     \<lparr> filePath = file, messages = [], errorCount = errors, warningCount = warnings \<rparr>"


section \<open>Properties\<close>

subsection \<open>Auxiliary facts about the resolver\<close>

lemma resolveESLintClass_Inl:
  "resolveESLintClass w flat = Inl e \<Longrightarrow> e = Error unable_to_find_message"
  by (auto simp: resolveESLintClass_def split: option.splits if_splits)

lemma construct_Inr:
  "construct w cls opts = Inr inst \<Longrightarrow>
     ESLint inst = cls \<and> eslint inst = opts \<and> new_ESLint w cls opts = None"
  by (auto simp: construct_def split: option.splits)

lemma construct_Inl: "construct w cls opts = Inl err \<Longrightarrow> \<exists>e. err = External e"
  by (auto simp: construct_def split: option.splits)

lemma resolver_Inr_class:
  assumes "resolveAndInstantiateESLint w path options flat = Inr inst"
  shows "resolveESLintClass w flat = Inr (ESLint inst)"
  using assms
  by (auto simp: resolveAndInstantiateESLint_def Let_def split: if_splits sum.splits
      dest: construct_Inr)

lemma resolver_Inr_accepted:
  assumes "resolveAndInstantiateESLint w path options flat = Inr inst"
  shows "new_ESLint w (ESLint inst) (eslint inst) = None"
  using assms
  by (auto simp: resolveAndInstantiateESLint_def Let_def split: if_splits sum.splits
      dest: construct_Inr)

lemma legacy_resolved:
  assumes "\<not> stats options" "resolveESLintClass w False = Inr cls"
  shows "resolveAndInstantiateESLint w path options False =
     construct w cls
       ((base_options options)
          \<lparr> overrideConfigFile := (case path of Some p \<Rightarrow> Path p | None \<Rightarrow> Absent),
            eslint_legacy := Some
              \<lparr> rulePaths = (case rulesdir options of Value ds \<Rightarrow> ds | _ \<Rightarrow> []),
                legacy_resolvePluginsRelativeTo =
                  or_undefined (resolvePluginsRelativeTo options),
                legacy_ignorePath = or_undefined (ignorePath options),
                legacy_useEslintrc = (\<not> noEslintrc options),
                legacy_reportUnusedDisableDirectives =
                  or_undefined (reportUnusedDisableDirectives options) \<rparr> \<rparr>)"
  using assms
  by (cases path) (simp_all add: resolveAndInstantiateESLint_def config_name_rejected_def Let_def)

lemma config_name_message_text:
  "config_name_message = ''When using the new Flat Config with ESLint, all configs must be named eslint.config.js or eslint.config.mjs or eslint.config.cjs or eslint.config.ts or eslint.config.mts or eslint.config.cts, and .eslintrc files may not be used. See https://eslint.org/docs/latest/use/configure/configuration-files''"
  by (simp add: config_name_message_def supportedFlatConfigNames_def)

lemma config_name_message_distinct:
  "config_name_message \<noteq> unable_to_find_message"
  "config_name_message \<noteq> useEslintrc_message"
  "config_name_message \<noteq> resolvePluginsRelativeTo_message"
  "config_name_message \<noteq> ignorePath_message"
  "config_name_message \<noteq> reportUnusedDisableDirectives_message"
  by (simp_all add: config_name_message_text unable_to_find_message_def useEslintrc_message_def
      resolvePluginsRelativeTo_message_def ignorePath_message_def
      reportUnusedDisableDirectives_message_def)

lemma config_name_message_names:
  "list_all (\<lambda>name. includes_str config_name_message name) supportedFlatConfigNames"
  unfolding config_name_message_text supportedFlatConfigNames_def includes_str_def
  by code_simp

subsection \<open>Auxiliary facts about the handler\<close>

lemma with_cacheLocation_fields [simp]:
  "lintFilePatterns (with_cacheLocation w options ctxt) = lintFilePatterns options"
  "quiet (with_cacheLocation w options ctxt) = quiet options"
  "force (with_cacheLocation w options ctxt) = force options"
  "maxWarnings (with_cacheLocation w options ctxt) = maxWarnings options"
  "stats (with_cacheLocation w options ctxt) = stats options"
  "format (with_cacheLocation w options ctxt) = format options"
  "outputFile (with_cacheLocation w options ctxt) = outputFile options"
  by (simp_all add: with_cacheLocation_def)

lemma handler_version_rejected:
  assumes "instantiate w options ctxt = Inr inst" "version_rejected w (ESLint inst)"
  shows "handler w options ctxt =
    (start_effects w options ctxt,
     \<lparr> success = False, error = Some (''Error when running ESLint: '' @ version_message) \<rparr>)"
  using assms by (simp add: handler_def try_block_def)


lemma try_block_report:
  assumes "instantiate w options ctxt = Inr inst" "\<not> version_rejected w (ESLint inst)"
    "lintFiles w (eslint inst) (lintFilePatterns options) = Inr rs" "rs \<noteq> []"
  shows "try_block w options ctxt =
    (start_effects w options ctxt @ [LintFiles (lintFilePatterns options)] @
       fst (report w (with_cacheLocation w options ctxt) (workspaceRoot ctxt)
              (printInfo options) rs),
     snd (report w (with_cacheLocation w options ctxt) (workspaceRoot ctxt)
            (printInfo options) rs))"
  using assms by (simp add: try_block_def split: prod.splits)

lemma try_block_returns:
  assumes "instantiate w options ctxt = Inr inst"
    "lintFiles w (eslint inst) (lintFilePatterns options) = Inr rs"
    "try_block w options ctxt = (fx, Inr out)"
  shows "\<not> version_rejected w (ESLint inst) \<and> rs \<noteq> [] \<and>
    snd (report w (with_cacheLocation w options ctxt) (workspaceRoot ctxt)
           (printInfo options) rs) = Inr out"
  using assms
  by (auto simp: try_block_def Let_def split: if_splits prod.splits)

lemma aggregate_totals:
  "fst (aggregate q rs te tw) = te + sum_list (map errorCount rs) \<and>
   fst (snd (aggregate q rs te tw)) = tw + sum_list (map warningCount rs)"
  by (induction rs arbitrary: te tw) (simp_all add: Let_def case_prod_beta add.assoc)

lemma report_success:
  assumes "snd (report w options root info rs) = Inr out"
  shows "success out =
     (force options \<or>
      (sum_list (map errorCount rs) = 0 \<and>
       \<not> tooManyWarnings options (sum_list (map warningCount rs))))"
proof -
  obtain te tw mapped where a: "aggregate (quiet options) rs 0 0 = (te, tw, mapped)"
    by (cases "aggregate (quiet options) rs 0 0") auto
  with aggregate_totals [of "quiet options" rs 0 0]
  have t: "te = sum_list (map errorCount rs)" "tw = sum_list (map warningCount rs)"
    by simp_all
  from assms a have "success out = (force options \<or> (te = 0 \<and> \<not> tooManyWarnings options tw))"
    by (auto simp: report_def Let_def split: option.splits sum.splits prod.splits)
  with t show ?thesis by simp
qed

lemma report_throws:
  assumes "loadFormatter w (format options) = Inl e" "outputFixes w rs = None"
  shows "report w options root info rs = ([OutputFixes rs], Inl (External e))"
  using assms by (simp add: report_def)


text \<open>
  The run reaches the outcome when nothing is thrown on the way to it.
\<close>

lemma outcome_reached:
  assumes "instantiate w options ctxt = Inr inst" "\<not> version_rejected w (ESLint inst)"
    "lintFiles w (eslint inst) (lintFilePatterns options) = Inr rs" "rs \<noteq> []"
    "outputFixes w rs = None" "loadFormatter w (format options) = Inr formatter"
    "formatter (List.map_filter (\<lambda>x. x) (snd (snd (aggregate (quiet options) rs 0 0)))) =
       Inr formattedResults"
    "snd (output_results w options (workspaceRoot ctxt) formattedResults) = None"
  shows "\<exists>fx out. try_block w options ctxt = (fx, Inr out)"
proof -
  have "output_results w (with_cacheLocation w options ctxt) (workspaceRoot ctxt)
      formattedResults = output_results w options (workspaceRoot ctxt) formattedResults"
    by (simp add: output_results_def)
  with assms(5-8)
  have "\<exists>out. snd (report w (with_cacheLocation w options ctxt) (workspaceRoot ctxt)
      (printInfo options) rs) = Inr out"
    by (cases "aggregate (quiet options) rs 0 0";
        cases "output_results w options (workspaceRoot ctxt) formattedResults")
      (simp add: report_def Let_def)
  with try_block_report [OF assms(1-4)] show ?thesis by simp
qed

text \<open>
  A step that throws between the lint pass and the outcome ends the run in the \<^verbatim>\<open>catch\<close>:
  with a formatter that cannot be loaded the run fails, also when \<open>force\<close> is set.
\<close>

lemma handler_formatter_missing:
  assumes "instantiate w options ctxt = Inr inst" "\<not> version_rejected w (ESLint inst)"
    "lintFiles w (eslint inst) (lintFilePatterns options) = Inr rs" "rs \<noteq> []"
    "outputFixes w rs = None" "loadFormatter w (format options) = Inl (RaisedError msg)"
  shows "snd (handler w options ctxt) =
    \<lparr> success = False, error = Some (''Error when running ESLint: '' @ msg) \<rparr>"
  using try_block_report [OF assms(1-4)] assms(5,6)
  by (simp add: handler_def report_throws)

subsection \<open>Facts about the concrete inputs\<close>

lemma example_class:
  "resolveESLintClass (example_world v fs out ig) flat = Inr \<lparr> version = v \<rparr>"
  by (simp add: resolveESLintClass_def example_world_def)

lemma example_construct:
  "construct (example_world v fs out ig) cls opts = Inr \<lparr> ESLint = cls, eslint = opts \<rparr>"
  by (simp add: construct_def example_world_def)

lemma example_useFlatConfig_none: "useFlatConfig (example_world v [] out ig) ctxt = False"
  by (simp add: useFlatConfig_def example_world_def supportedFlatConfigNames_def)

lemma example_instantiate_legacy:
  assumes "\<not> stats options"
  shows "\<exists>inst. instantiate (example_world v [] out ig) options ctxt = Inr inst \<and>
           ESLint inst = \<lparr> version = v \<rparr>"
  unfolding instantiate_def example_useFlatConfig_none
  using legacy_resolved [of "with_cacheLocation (example_world v [] out ig) options ctxt"
      "example_world v [] out ig" "\<lparr> version = v \<rparr>"] assms
  by (simp add: example_class example_construct)

lemma example_lintFiles [simp]: "lintFiles (example_world v fs out ig) inst ps = out"
  by (simp add: example_world_def)

lemma example_version_accepted:
  "\<not> version_rejected (example_world v' fs out ig) \<lparr> version = Some ''8.57.0'' \<rparr>"
  by (simp add: version_rejected_def example_world_def decimal_Number_def is_digit_def
      number_lt_def number_eq_def)

lemma example_report_returns:
  "\<exists>out. snd (report (example_world v fs lint ig) options root info rs) = Inr out"
  by (auto simp: report_def output_results_def example_world_def Let_def
      split: prod.splits nullable.splits)

section \<open>The claims\<close>

subsection \<open>The outcome of a run\<close>

text \<open>
  Claim C1. A run reaches the outcome step when the resolver has returned an instance,
  the lint pass has returned its results, and the \<^verbatim>\<open>try\<close> block then returns an outcome
  instead of throwing: the version gate let the run pass, the results are not empty, and
  nothing was thrown while the fixes were written and the results formatted and put out.
  The outcome is then what the handler returns, and its \<open>success\<close> flag is true exactly
  when \<open>force\<close> is set, or the sum of the \<open>errorCount\<close> fields of all results is zero and the
  warning threshold is not exceeded; the threshold is exceeded exactly when \<open>maxWarnings\<close>
  is configured, is not negative, and is below the sum of the \<open>warningCount\<close> fields of all
  results. The sums range over the results as the lint pass returned them, whatever
  \<open>quiet\<close> is.
\<close>

theorem outcome_success:
  assumes "instantiate w options ctxt = Inr inst"
    and "lintFiles w (eslint inst) (lintFilePatterns options) = Inr lintResults"
    and "try_block w options ctxt = (effects, Inr outcome)"
  shows "handler w options ctxt = (effects, outcome) \<and>
     success (snd (handler w options ctxt)) =
     (force options \<or>
      (sum_list (map errorCount lintResults) = 0 \<and>
       \<not> (case maxWarnings options of
             None \<Rightarrow> False
           | Some m \<Rightarrow> 0 \<le> m \<and> m < sum_list (map warningCount lintResults))))"
proof -
  from assms(3) have h: "handler w options ctxt = (effects, outcome)"
    by (simp add: handler_def)
  from try_block_returns [OF assms]
  have "snd (report w (with_cacheLocation w options ctxt) (workspaceRoot ctxt)
           (printInfo options) lintResults) = Inr outcome"
    by simp
  from report_success [OF this] h show ?thesis
    by (simp add: tooManyWarnings_def split: option.splits)
qed

text \<open>
  The scenario of the specification: no errors, a limit of three warnings; five warnings
  fail the run, three warnings pass it.
\<close>

theorem outcome_success_witness:
  "success (snd (handler
      (example_world (Some ''8.57.0'') [] (Inr [example_result ''src/a.ts'' 0 5]) [])
      (emptySchema\<lparr>lintFilePatterns := [''src''], maxWarnings := Some 3\<rparr>)
      example_context)) = False \<and>
   success (snd (handler
      (example_world (Some ''8.57.0'') [] (Inr [example_result ''src/a.ts'' 0 3]) [])
      (emptySchema\<lparr>lintFilePatterns := [''src''], maxWarnings := Some 3\<rparr>)
      example_context)) = True"
proof -
  let ?o = "emptySchema\<lparr>lintFilePatterns := [''src''], maxWarnings := Some 3\<rparr>"
  have ns: "\<not> stats ?o" by (simp add: emptySchema_def)
  have run: "success (snd (handler
      (example_world (Some ''8.57.0'') [] (Inr [example_result ''src/a.ts'' 0 n]) []) ?o
      example_context)) = (\<not> 3 < n)" for n
  proof -
    let ?w = "example_world (Some ''8.57.0'') [] (Inr [example_result ''src/a.ts'' 0 n]) []"
    from example_instantiate_legacy [OF ns] obtain inst
      where i: "instantiate ?w ?o example_context = Inr inst"
        and c: "ESLint inst = \<lparr> version = Some ''8.57.0'' \<rparr>"
      by blast
    have v: "\<not> version_rejected ?w (ESLint inst)"
      unfolding c by (rule example_version_accepted)
    have l: "lintFiles ?w (eslint inst) (lintFilePatterns ?o) =
        Inr [example_result ''src/a.ts'' 0 n]"
      by simp
    from try_block_report [OF i v l] example_report_returns
    obtain fx out where t: "try_block ?w ?o example_context = (fx, Inr out)"
      by (metis list.distinct(1))
    from outcome_success [OF i l t]
    have "success (snd (handler ?w ?o example_context)) =
      (force ?o \<or>
       (sum_list (map errorCount [example_result ''src/a.ts'' 0 n]) = 0 \<and>
        \<not> (case maxWarnings ?o of
              None \<Rightarrow> False
            | Some m \<Rightarrow> 0 \<le> m \<and>
                m < sum_list (map warningCount [example_result ''src/a.ts'' 0 n]))))"
      by blast
    also have "\<dots> = (\<not> 3 < n)"
      by (simp add: emptySchema_def example_result_def)
    finally show ?thesis .
  qed
  from run [of 5] run [of 3] show ?thesis by simp
qed

text \<open>
  Claim C2. The two totals that the handler accumulates while it maps over the results
  are the sums of the \<open>errorCount\<close> and of the \<open>warningCount\<close> fields over all the results,
  and they are the same with and without the errors-only narrowing of the report.
\<close>

theorem totals_are_unfiltered_sums:
  "fst (aggregate reportOnlyErrors lintResults 0 0) = sum_list (map errorCount lintResults) \<and>
   fst (snd (aggregate reportOnlyErrors lintResults 0 0)) =
     sum_list (map warningCount lintResults) \<and>
   fst (aggregate True lintResults 0 0) = fst (aggregate False lintResults 0 0) \<and>
   fst (snd (aggregate True lintResults 0 0)) = fst (snd (aggregate False lintResults 0 0))"
  using aggregate_totals [of reportOnlyErrors lintResults 0 0]
    aggregate_totals [of True lintResults 0 0] aggregate_totals [of False lintResults 0 0]
  by simp

text \<open>
  Two results, one with errors and one with warnings only: under \<open>quiet\<close> the second one
  leaves the report, and the totals stay 2 and 5.
\<close>

theorem totals_are_unfiltered_sums_witness:
  "fst (aggregate True [example_result ''a.ts'' 2 1, example_result ''b.ts'' 0 4] 0 0) = 2 \<and>
   fst (snd (aggregate True [example_result ''a.ts'' 2 1, example_result ''b.ts'' 0 4] 0 0)) = 5 \<and>
   fst (aggregate False [example_result ''a.ts'' 2 1, example_result ''b.ts'' 0 4] 0 0) = 2 \<and>
   fst (snd (aggregate False [example_result ''a.ts'' 2 1, example_result ''b.ts'' 0 4] 0 0)) = 5 \<and>
   snd (snd (aggregate True [example_result ''a.ts'' 2 1, example_result ''b.ts'' 0 4] 0 0)) =
     [Some (example_result ''a.ts'' 2 1), None] \<and>
   snd (snd (aggregate False [example_result ''a.ts'' 2 1, example_result ''b.ts'' 0 4] 0 0)) =
     [Some (example_result ''a.ts'' 2 1), Some (example_result ''b.ts'' 0 4)]"
  using totals_are_unfiltered_sums
    [of True "[example_result ''a.ts'' 2 1, example_result ''b.ts'' 0 4]"]
  by (simp add: example_result_def)

subsection \<open>The resolver\<close>

text \<open>
  Claim C6. Under the flat format, with an explicit configuration path (a non-empty
  string: the code tests the path for truthiness, as the handler does before it passes
  one on): when the path ends with none of the six supported names, the resolver throws
  the error whose message lists the six names; when it ends with one of them, the resolver
  does not throw that error.
\<close>

theorem flat_config_name_check:
  assumes "p \<noteq> []"
  shows "(if list_ex (\<lambda>name. endsWith p name) supportedFlatConfigNames
          then resolveAndInstantiateESLint w (Some p) options True \<noteq>
                 Inl (Error config_name_message)
          else resolveAndInstantiateESLint w (Some p) options True =
                 Inl (Error config_name_message)) \<and>
         list_all (\<lambda>name. includes_str config_name_message name) supportedFlatConfigNames \<and>
         supportedFlatConfigNames =
           [''eslint.config.js'', ''eslint.config.mjs'', ''eslint.config.cjs'',
            ''eslint.config.ts'', ''eslint.config.mts'', ''eslint.config.cts'']"
proof (intro conjI)
  show "if list_ex (\<lambda>name. endsWith p name) supportedFlatConfigNames
        then resolveAndInstantiateESLint w (Some p) options True \<noteq>
               Inl (Error config_name_message)
        else resolveAndInstantiateESLint w (Some p) options True =
               Inl (Error config_name_message)"
  proof (cases "list_ex (\<lambda>name. endsWith p name) supportedFlatConfigNames")
    case True
    then have "\<not> config_name_rejected (Some p) True"
      by (simp add: config_name_rejected_def)
    then have "resolveAndInstantiateESLint w (Some p) options True \<noteq>
        Inl (Error config_name_message)"
      using config_name_message_distinct
      by (auto simp: resolveAndInstantiateESLint_def Let_def split: sum.splits
          dest!: resolveESLintClass_Inl construct_Inl)
    with True show ?thesis by simp
  next
    case False
    with assms have "config_name_rejected (Some p) True"
      by (simp add: config_name_rejected_def)
    then have "resolveAndInstantiateESLint w (Some p) options True =
        Inl (Error config_name_message)"
      by (simp add: resolveAndInstantiateESLint_def)
    with False show ?thesis by simp
  qed
next
  show "list_all (\<lambda>name. includes_str config_name_message name) supportedFlatConfigNames"
    by (rule config_name_message_names)
next
  show "supportedFlatConfigNames =
           [''eslint.config.js'', ''eslint.config.mjs'', ''eslint.config.cjs'',
            ''eslint.config.ts'', ''eslint.config.mts'', ''eslint.config.cts'']"
    by (simp add: supportedFlatConfigNames_def)
qed

text \<open>The two paths of the repository's tests: an eslintrc file and a flat config file.\<close>

theorem flat_config_name_check_witness:
  "resolveAndInstantiateESLint (example_world (Some ''8.57.0'') [] (Inr []) [])
      (Some ''./.eslintrc.json'') emptySchema True = Inl (Error config_name_message) \<and>
   resolveAndInstantiateESLint (example_world (Some ''8.57.0'') [] (Inr []) [])
      (Some ''./eslint.config.ts'') emptySchema True \<noteq> Inl (Error config_name_message)"
proof -
  let ?w = "example_world (Some ''8.57.0'') [] (Inr []) []"
  have a: "''./.eslintrc.json'' \<noteq> []" and b: "''./eslint.config.ts'' \<noteq> []"
    by simp_all
  have rc: "\<not> list_ex (\<lambda>name. endsWith ''./.eslintrc.json'' name) supportedFlatConfigNames"
    unfolding supportedFlatConfigNames_def endsWith_def by code_simp
  have ts: "list_ex (\<lambda>name. endsWith ''./eslint.config.ts'' name) supportedFlatConfigNames"
    unfolding supportedFlatConfigNames_def endsWith_def by code_simp
  from flat_config_name_check [OF a, of ?w emptySchema] rc
  have 1: "resolveAndInstantiateESLint ?w (Some ''./.eslintrc.json'') emptySchema True =
      Inl (Error config_name_message)"
    by simp
  from flat_config_name_check [OF b, of ?w emptySchema] ts
  have 2: "resolveAndInstantiateESLint ?w (Some ''./eslint.config.ts'') emptySchema True \<noteq>
      Inl (Error config_name_message)"
    by simp
  from 1 2 show ?thesis by blast
qed

text \<open>
  Claim C7. Under the legacy format: when \<open>stats\<close> is requested the resolver throws the
  error that statistics need the flat format. Otherwise every instance it returns was
  constructed without a \<open>stats\<close> key and with the legacy keys: \<open>rulePaths\<close>, the given
  directories, or the empty list when none are given; \<open>resolvePluginsRelativeTo\<close> and
  \<open>ignorePath\<close>, each the given string, or undefined when it is missing or empty; and
  \<open>useEslintrc\<close>, the negation of \<open>noEslintrc\<close>. When the engine class can be resolved, the
  resolver hands exactly these options to the constructor of the class: it returns the
  instance when the constructor accepts them, and throws what the constructor raises
  otherwise.
\<close>

theorem legacy_session_options:
  "(stats options \<longrightarrow>
      resolveAndInstantiateESLint w path options False = Inl (Error stats_message)) \<and>
   (\<not> stats options \<longrightarrow>
      (\<forall>inst. resolveAndInstantiateESLint w path options False = Inr inst \<longrightarrow>
         eslint_stats (eslint inst) = None \<and>
         (\<exists>l. eslint_legacy (eslint inst) = Some l \<and>
              rulePaths l = (case rulesdir options of Value ds \<Rightarrow> ds | _ \<Rightarrow> []) \<and>
              legacy_resolvePluginsRelativeTo l =
                (case resolvePluginsRelativeTo options of
                   Value s \<Rightarrow> if s = [] then None else Some s
                 | _ \<Rightarrow> None) \<and>
              legacy_ignorePath l =
                (case ignorePath options of
                   Value s \<Rightarrow> if s = [] then None else Some s
                 | _ \<Rightarrow> None) \<and>
              legacy_useEslintrc l = (\<not> noEslintrc options))) \<and>
      (\<forall>cls. resolveESLintClass w False = Inr cls \<longrightarrow>
         resolveAndInstantiateESLint w path options False =
           (let eslintOptions =
              \<lparr> eslint_fix = fix_opt options,
                eslint_cache = cache options,
                eslint_cacheLocation =
                  (case cacheLocation options of
                     Value s \<Rightarrow> if s = [] then None else Some s
                   | _ \<Rightarrow> None),
                eslint_cacheStrategy =
                  (case cacheStrategy options of
                     Value s \<Rightarrow> if s = [] then None else Some s
                   | _ \<Rightarrow> None),
                errorOnUnmatchedPattern = False,
                eslint_stats = None,
                overrideConfigFile = (case path of Some p \<Rightarrow> Path p | None \<Rightarrow> Absent),
                eslint_legacy = Some
                  \<lparr> rulePaths = (case rulesdir options of Value ds \<Rightarrow> ds | _ \<Rightarrow> []),
                    legacy_resolvePluginsRelativeTo =
                      (case resolvePluginsRelativeTo options of
                         Value s \<Rightarrow> if s = [] then None else Some s
                       | _ \<Rightarrow> None),
                    legacy_ignorePath =
                      (case ignorePath options of
                         Value s \<Rightarrow> if s = [] then None else Some s
                       | _ \<Rightarrow> None),
                    legacy_useEslintrc = (\<not> noEslintrc options),
                    legacy_reportUnusedDisableDirectives =
                      (case reportUnusedDisableDirectives options of
                         Value s \<Rightarrow> if s = [] then None else Some s
                       | _ \<Rightarrow> None) \<rparr> \<rparr>
            in case new_ESLint w cls eslintOptions of
                 None \<Rightarrow> Inr \<lparr> ESLint = cls, eslint = eslintOptions \<rparr>
               | Some e \<Rightarrow> Inl (External e))))"
proof -
  define given where "given = \<lparr> eslint_fix = fix_opt options,
        eslint_cache = cache options,
        eslint_cacheLocation =
          (case cacheLocation options of
             Value s \<Rightarrow> if s = [] then None else Some s
           | _ \<Rightarrow> None),
        eslint_cacheStrategy =
          (case cacheStrategy options of
             Value s \<Rightarrow> if s = [] then None else Some s
           | _ \<Rightarrow> None),
        errorOnUnmatchedPattern = False,
        eslint_stats = None,
        overrideConfigFile = (case path of Some p \<Rightarrow> Path p | None \<Rightarrow> Absent),
        eslint_legacy = Some
          \<lparr> rulePaths = (case rulesdir options of Value ds \<Rightarrow> ds | _ \<Rightarrow> []),
            legacy_resolvePluginsRelativeTo =
              (case resolvePluginsRelativeTo options of
                 Value s \<Rightarrow> if s = [] then None else Some s
               | _ \<Rightarrow> None),
            legacy_ignorePath =
              (case ignorePath options of
                 Value s \<Rightarrow> if s = [] then None else Some s
               | _ \<Rightarrow> None),
            legacy_useEslintrc = (\<not> noEslintrc options),
            legacy_reportUnusedDisableDirectives =
              (case reportUnusedDisableDirectives options of
                 Value s \<Rightarrow> if s = [] then None else Some s
               | _ \<Rightarrow> None) \<rparr> \<rparr>"
  have ou: "or_undefined x = (case x of Value s \<Rightarrow> if s = [] then None else Some s | _ \<Rightarrow> None)"
    for x
    by (cases x) simp_all
  have built: "(base_options options)
      \<lparr> overrideConfigFile := (case path of Some p \<Rightarrow> Path p | None \<Rightarrow> Absent),
        eslint_legacy := Some
          \<lparr> rulePaths = (case rulesdir options of Value ds \<Rightarrow> ds | _ \<Rightarrow> []),
            legacy_resolvePluginsRelativeTo =
              or_undefined (resolvePluginsRelativeTo options),
            legacy_ignorePath = or_undefined (ignorePath options),
            legacy_useEslintrc = (\<not> noEslintrc options),
            legacy_reportUnusedDisableDirectives =
              or_undefined (reportUnusedDisableDirectives options) \<rparr> \<rparr> = given"
    unfolding given_def base_options_def ou by simp
  have resolved: "resolveAndInstantiateESLint w path options False = construct w cls given"
    if "\<not> stats options" "resolveESLintClass w False = Inr cls" for cls
    using legacy_resolved [OF that, of path] unfolding built .
  have fields: "eslint_stats given = None \<and>
      (\<exists>l. eslint_legacy given = Some l \<and>
           rulePaths l = (case rulesdir options of Value ds \<Rightarrow> ds | _ \<Rightarrow> []) \<and>
           legacy_resolvePluginsRelativeTo l =
             (case resolvePluginsRelativeTo options of
                Value s \<Rightarrow> if s = [] then None else Some s
              | _ \<Rightarrow> None) \<and>
           legacy_ignorePath l =
             (case ignorePath options of
                Value s \<Rightarrow> if s = [] then None else Some s
              | _ \<Rightarrow> None) \<and>
           legacy_useEslintrc l = (\<not> noEslintrc options))"
    unfolding given_def by simp
  have stats_error: "resolveAndInstantiateESLint w path options False = Inl (Error stats_message)"
    if "stats options"
    using that by (simp add: resolveAndInstantiateESLint_def)
  have returned: "eslint inst = given"
    if ns: "\<not> stats options"
      and r: "resolveAndInstantiateESLint w path options False = Inr inst" for inst
  proof -
    from resolved [OF ns resolver_Inr_class [OF r]] r
    have "construct w (ESLint inst) given = Inr inst" by simp
    from construct_Inr [OF this] show ?thesis by simp
  qed
  have handed: "resolveAndInstantiateESLint w path options False =
      (let eslintOptions = given
       in case new_ESLint w cls eslintOptions of
            None \<Rightarrow> Inr \<lparr> ESLint = cls, eslint = eslintOptions \<rparr>
          | Some e \<Rightarrow> Inl (External e))"
    if "\<not> stats options" "resolveESLintClass w False = Inr cls" for cls
    unfolding resolved [OF that]
    by (simp add: construct_def Let_def split: option.splits)
  show ?thesis
    unfolding given_def [symmetric]
  proof (intro conjI impI allI)
    assume "stats options"
    then show "resolveAndInstantiateESLint w path options False = Inl (Error stats_message)"
      by (rule stats_error)
  next
    fix inst
    assume "\<not> stats options" "resolveAndInstantiateESLint w path options False = Inr inst"
    then have "eslint inst = given" by (rule returned)
    with fields show "eslint_stats (eslint inst) = None" by simp
  next
    fix inst
    assume "\<not> stats options" "resolveAndInstantiateESLint w path options False = Inr inst"
    then have "eslint inst = given" by (rule returned)
    with fields
    show "\<exists>l. eslint_legacy (eslint inst) = Some l \<and>
           rulePaths l = (case rulesdir options of Value ds \<Rightarrow> ds | _ \<Rightarrow> []) \<and>
           legacy_resolvePluginsRelativeTo l =
             (case resolvePluginsRelativeTo options of
                Value s \<Rightarrow> if s = [] then None else Some s
              | _ \<Rightarrow> None) \<and>
           legacy_ignorePath l =
             (case ignorePath options of
                Value s \<Rightarrow> if s = [] then None else Some s
              | _ \<Rightarrow> None) \<and>
           legacy_useEslintrc l = (\<not> noEslintrc options)"
      by simp
  next
    fix cls
    assume "\<not> stats options" "resolveESLintClass w False = Inr cls"
    then show "resolveAndInstantiateESLint w path options False =
      (let eslintOptions = given
       in case new_ESLint w cls eslintOptions of
            None \<Rightarrow> Inr \<lparr> ESLint = cls, eslint = eslintOptions \<rparr>
          | Some e \<Rightarrow> Inl (External e))"
      by (rule handed)
  qed
qed

text \<open>
  The calls of the repository's tests: \<open>stats\<close> with an eslintrc file; \<open>noEslintrc\<close> alone,
  where the other legacy keys take their defaults; and rule directories, a plugin root and
  an ignore file given.
\<close>

theorem legacy_session_options_witness:
  "resolveAndInstantiateESLint (example_world (Some ''8.57.0'') [] (Inr []) [])
      (Some ''./.eslintrc.json'') (emptySchema\<lparr>stats := True\<rparr>) False =
      Inl (Error stats_message) \<and>
   (\<exists>inst. resolveAndInstantiateESLint (example_world (Some ''8.57.0'') [] (Inr []) [])
      None (emptySchema\<lparr>noEslintrc := True\<rparr>) False = Inr inst \<and>
      eslint_stats (eslint inst) = None \<and>
      (\<exists>l. eslint_legacy (eslint inst) = Some l \<and> rulePaths l = [] \<and>
           legacy_resolvePluginsRelativeTo l = None \<and> legacy_ignorePath l = None \<and>
           legacy_useEslintrc l = False)) \<and>
   (\<exists>inst. resolveAndInstantiateESLint (example_world (Some ''8.57.0'') [] (Inr []) [])
      None
      (emptySchema\<lparr>rulesdir := Value [''./some-rules'', ''../some-more-rules''],
         resolvePluginsRelativeTo := Value ''./some-path'',
         ignorePath := Value ''.eslintignore''\<rparr>) False = Inr inst \<and>
      eslint_stats (eslint inst) = None \<and>
      (\<exists>l. eslint_legacy (eslint inst) = Some l \<and>
           rulePaths l = [''./some-rules'', ''../some-more-rules''] \<and>
           legacy_resolvePluginsRelativeTo l = Some ''./some-path'' \<and>
           legacy_ignorePath l = Some ''.eslintignore'' \<and>
           legacy_useEslintrc l = True))"
proof -
  let ?w = "example_world (Some ''8.57.0'') [] (Inr []) []"
  let ?s = "emptySchema\<lparr>stats := True\<rparr>"
  let ?n = "emptySchema\<lparr>noEslintrc := True\<rparr>"
  let ?g = "emptySchema\<lparr>rulesdir := Value [''./some-rules'', ''../some-more-rules''],
         resolvePluginsRelativeTo := Value ''./some-path'',
         ignorePath := Value ''.eslintignore''\<rparr>"
  have a: "stats ?s" by simp
  have b: "\<not> stats ?n" by (simp add: emptySchema_def)
  have g: "\<not> stats ?g" by (simp add: emptySchema_def)
  note c = example_class [of "Some ''8.57.0''" "[]" "Inr []" "[]" False]
  have acc: "new_ESLint ?w cls opts = None" for cls opts
    by (simp add: example_world_def)
  note t1 = legacy_session_options [of ?s ?w "Some ''./.eslintrc.json''"]
  note t2 = legacy_session_options [of ?n ?w None]
  note t3 = legacy_session_options [of ?g ?w None]
  from t1 a have c1: "resolveAndInstantiateESLint ?w (Some ''./.eslintrc.json'') ?s False =
      Inl (Error stats_message)"
    by blast
  from t2 b c have "\<exists>inst. resolveAndInstantiateESLint ?w None ?n False = Inr inst"
    by (simp add: acc Let_def)
  then obtain i2 where i2: "resolveAndInstantiateESLint ?w None ?n False = Inr i2"
    by blast
  with t2 b have "eslint_stats (eslint i2) = None \<and>
         (\<exists>l. eslint_legacy (eslint i2) = Some l \<and>
              rulePaths l = (case rulesdir ?n of Value ds \<Rightarrow> ds | _ \<Rightarrow> []) \<and>
              legacy_resolvePluginsRelativeTo l =
                (case resolvePluginsRelativeTo ?n of
                   Value s \<Rightarrow> if s = [] then None else Some s
                 | _ \<Rightarrow> None) \<and>
              legacy_ignorePath l =
                (case ignorePath ?n of
                   Value s \<Rightarrow> if s = [] then None else Some s
                 | _ \<Rightarrow> None) \<and>
              legacy_useEslintrc l = (\<not> noEslintrc ?n))"
    by blast
  then have c2: "eslint_stats (eslint i2) = None \<and>
      (\<exists>l. eslint_legacy (eslint i2) = Some l \<and> rulePaths l = [] \<and>
           legacy_resolvePluginsRelativeTo l = None \<and> legacy_ignorePath l = None \<and>
           legacy_useEslintrc l = False)"
    by (simp add: emptySchema_def)
  from t3 g c have "\<exists>inst. resolveAndInstantiateESLint ?w None ?g False = Inr inst"
    by (simp add: acc Let_def)
  then obtain i3 where i3: "resolveAndInstantiateESLint ?w None ?g False = Inr i3"
    by blast
  with t3 g have "eslint_stats (eslint i3) = None \<and>
         (\<exists>l. eslint_legacy (eslint i3) = Some l \<and>
              rulePaths l = (case rulesdir ?g of Value ds \<Rightarrow> ds | _ \<Rightarrow> []) \<and>
              legacy_resolvePluginsRelativeTo l =
                (case resolvePluginsRelativeTo ?g of
                   Value s \<Rightarrow> if s = [] then None else Some s
                 | _ \<Rightarrow> None) \<and>
              legacy_ignorePath l =
                (case ignorePath ?g of
                   Value s \<Rightarrow> if s = [] then None else Some s
                 | _ \<Rightarrow> None) \<and>
              legacy_useEslintrc l = (\<not> noEslintrc ?g))"
    by blast
  then have c3: "eslint_stats (eslint i3) = None \<and>
      (\<exists>l. eslint_legacy (eslint i3) = Some l \<and>
           rulePaths l = [''./some-rules'', ''../some-more-rules''] \<and>
           legacy_resolvePluginsRelativeTo l = Some ''./some-path'' \<and>
           legacy_ignorePath l = Some ''.eslintignore'' \<and>
           legacy_useEslintrc l = True)"
    by (simp add: emptySchema_def)
  from c1 i2 c2 i3 c3 show ?thesis by blast
qed



text \<open>
  Claim C3, as amended. Under the flat format, for every instance that the resolver
  returns: when \<open>noConfigLookup\<close> is present, \<open>overrideConfigFile\<close> is the explicit path if
  there is one, and otherwise the boolean \<open>\<not> configLookup\<close> with \<open>false\<close> replaced by
  undefined, where \<open>configLookup\<close> is the negation of the toggle; so with the toggle true
  and no path it is the boolean \<open>true\<close>, which is not undefined. It is never the boolean
  \<open>false\<close>. When \<open>noConfigLookup\<close> is absent it is the explicit path, or undefined when
  there is none.
\<close>

theorem flat_overrideConfigFile:
  assumes "resolveAndInstantiateESLint w path options True = Inr inst"
  shows "(if noConfigLookup options = Undefined
          then overrideConfigFile (eslint inst) =
                 (case path of Some p \<Rightarrow> Path p | None \<Rightarrow> Absent)
          else overrideConfigFile (eslint inst) =
                 (case path of
                    Some p \<Rightarrow> Path p
                  | None \<Rightarrow> if not_js (noConfigLookup options) then Absent else Flag True)) \<and>
         (noConfigLookup options = Value True \<and> path = None \<longrightarrow>
            overrideConfigFile (eslint inst) = Flag True) \<and>
         overrideConfigFile (eslint inst) \<noteq> Flag False"
proof -
  from assms have o: "overrideConfigFile (eslint inst) =
      flat_overrideConfigFile path (noConfigLookup options)"
    by (auto simp: resolveAndInstantiateESLint_def Let_def split: if_splits sum.splits
        dest!: construct_Inr)
  show ?thesis
    unfolding o
    by (cases "noConfigLookup options"; cases path)
      (auto simp: flat_overrideConfigFile_def Let_def)
qed

text \<open>
  The toggle set and no path gives the boolean \<open>true\<close>; a path and no toggle gives the
  path.
\<close>

theorem flat_overrideConfigFile_witness:
  "(\<exists>inst. resolveAndInstantiateESLint (example_world (Some ''8.57.0'') [] (Inr []) [])
       None (emptySchema\<lparr>noConfigLookup := Value True\<rparr>) True = Inr inst \<and>
       overrideConfigFile (eslint inst) = Flag True) \<and>
   (\<exists>inst. resolveAndInstantiateESLint (example_world (Some ''8.57.0'') [] (Inr []) [])
       (Some ''./eslint.config.ts'') emptySchema True = Inr inst \<and>
       overrideConfigFile (eslint inst) = Path ''./eslint.config.ts'')"
proof -
  let ?w = "example_world (Some ''8.57.0'') [] (Inr []) []"
  let ?o = "emptySchema\<lparr>noConfigLookup := Value True\<rparr>"
  have "\<exists>inst. resolveAndInstantiateESLint ?w None ?o True = Inr inst"
    by (simp add: resolveAndInstantiateESLint_def example_class example_construct
        config_name_rejected_def emptySchema_def)
  then obtain i1 where i1: "resolveAndInstantiateESLint ?w None ?o True = Inr i1"
    by blast
  from flat_overrideConfigFile [OF i1] have 1: "overrideConfigFile (eslint i1) = Flag True"
    by (simp add: emptySchema_def)
  have ts: "list_ex (\<lambda>name. endsWith ''./eslint.config.ts'' name) supportedFlatConfigNames"
    unfolding supportedFlatConfigNames_def endsWith_def by code_simp
  have "\<exists>inst. resolveAndInstantiateESLint ?w (Some ''./eslint.config.ts'') emptySchema True =
      Inr inst"
    using ts
    by (simp add: resolveAndInstantiateESLint_def example_class example_construct
        config_name_rejected_def emptySchema_def)
  then obtain i2
    where i2: "resolveAndInstantiateESLint ?w (Some ''./eslint.config.ts'') emptySchema True =
      Inr i2"
    by blast
  from flat_overrideConfigFile [OF i2]
  have 2: "overrideConfigFile (eslint i2) = Path ''./eslint.config.ts''"
    by (simp add: emptySchema_def)
  from i1 1 i2 2 show ?thesis by blast
qed

text \<open>
  Claim C3, as stated, has the resolved value absent when the toggle is true and there is
  no path. The resolver constructs the instance with the boolean \<open>true\<close>.
\<close>

theorem flat_overrideConfigFile_counterexample:
  "resolveAndInstantiateESLint (example_world (Some ''8.57.0'') [] (Inr []) [])
      None (emptySchema\<lparr>noConfigLookup := Value True\<rparr>) True =
     Inr \<lparr> ESLint = \<lparr> version = Some ''8.57.0'' \<rparr>,
           eslint = \<lparr> eslint_fix = False, eslint_cache = False, eslint_cacheLocation = None,
                      eslint_cacheStrategy = None, errorOnUnmatchedPattern = False,
                      eslint_stats = Some False, overrideConfigFile = Flag True,
                      eslint_legacy = None \<rparr> \<rparr> \<and>
   Flag True \<noteq> Absent"
  by (simp add: resolveAndInstantiateESLint_def example_class example_construct
      config_name_rejected_def emptySchema_def base_options_def flat_overrideConfigFile_def)

text \<open>
  Claim C4, as amended. Under the flat format the resolver fails whenever one of the four
  legacy-only options is set, where set means not \<^verbatim>\<open>undefined\<close> for \<open>useEslintrc\<close>,
  \<open>resolvePluginsRelativeTo\<close> and \<open>ignorePath\<close>, and truthy for
  \<open>reportUnusedDisableDirectives\<close>. The four checks run in this order, after the check of
  the configuration file name and after the engine class has been resolved; when those two
  steps pass, the error thrown is the one of the first option in this order that is set.
  The four messages differ from one another, and each names its option and points to the
  documentation of the flat format.
\<close>

theorem flat_rejects_legacy_only_options:
  "(useEslintrc options \<noteq> Undefined \<or> resolvePluginsRelativeTo options \<noteq> Undefined \<or>
    ignorePath options \<noteq> Undefined \<or> truthy (reportUnusedDisableDirectives options) \<longrightarrow>
      isl (resolveAndInstantiateESLint w path options True)) \<and>
   (\<not> config_name_rejected path True \<and> resolveESLintClass w True = Inr cls \<longrightarrow>
      (useEslintrc options \<noteq> Undefined \<longrightarrow>
         resolveAndInstantiateESLint w path options True = Inl (Error useEslintrc_message)) \<and>
      (useEslintrc options = Undefined \<and> resolvePluginsRelativeTo options \<noteq> Undefined \<longrightarrow>
         resolveAndInstantiateESLint w path options True =
           Inl (Error resolvePluginsRelativeTo_message)) \<and>
      (useEslintrc options = Undefined \<and> resolvePluginsRelativeTo options = Undefined \<and>
       ignorePath options \<noteq> Undefined \<longrightarrow>
         resolveAndInstantiateESLint w path options True = Inl (Error ignorePath_message)) \<and>
      (useEslintrc options = Undefined \<and> resolvePluginsRelativeTo options = Undefined \<and>
       ignorePath options = Undefined \<and> truthy (reportUnusedDisableDirectives options) \<longrightarrow>
         resolveAndInstantiateESLint w path options True =
           Inl (Error reportUnusedDisableDirectives_message))) \<and>
   distinct [useEslintrc_message, resolvePluginsRelativeTo_message, ignorePath_message,
     reportUnusedDisableDirectives_message] \<and>
   includes_str useEslintrc_message ''`useEslintrc`'' \<and>
   includes_str resolvePluginsRelativeTo_message ''`resolvePluginsRelativeTo`'' \<and>
   includes_str ignorePath_message ''`ignorePath`'' \<and>
   includes_str reportUnusedDisableDirectives_message ''`reportUnusedDisableDirectives`'' \<and>
   list_all
     (\<lambda>m. includes_str m
        ''See https://eslint.org/docs/latest/use/configure/configuration-files-new'')
     [useEslintrc_message, resolvePluginsRelativeTo_message, ignorePath_message,
      reportUnusedDisableDirectives_message]"
proof -
  have fails: "isl (resolveAndInstantiateESLint w path options True)"
    if "useEslintrc options \<noteq> Undefined \<or> resolvePluginsRelativeTo options \<noteq> Undefined \<or>
      ignorePath options \<noteq> Undefined \<or> truthy (reportUnusedDisableDirectives options)"
    using that
    by (auto simp: resolveAndInstantiateESLint_def Let_def split: sum.splits)
  have first: "resolveAndInstantiateESLint w path options True =
      (if useEslintrc options \<noteq> Undefined then Inl (Error useEslintrc_message)
       else if resolvePluginsRelativeTo options \<noteq> Undefined
         then Inl (Error resolvePluginsRelativeTo_message)
       else if ignorePath options \<noteq> Undefined then Inl (Error ignorePath_message)
       else if truthy (reportUnusedDisableDirectives options)
         then Inl (Error reportUnusedDisableDirectives_message)
       else resolveAndInstantiateESLint w path options True)"
    if "\<not> config_name_rejected path True" "resolveESLintClass w True = Inr cls"
    using that by (simp add: resolveAndInstantiateESLint_def Let_def)
  have differ: "distinct [useEslintrc_message, resolvePluginsRelativeTo_message,
      ignorePath_message, reportUnusedDisableDirectives_message]"
    by (simp add: useEslintrc_message_def resolvePluginsRelativeTo_message_def
        ignorePath_message_def reportUnusedDisableDirectives_message_def)
  have names: "includes_str useEslintrc_message ''`useEslintrc`''"
    "includes_str resolvePluginsRelativeTo_message ''`resolvePluginsRelativeTo`''"
    "includes_str ignorePath_message ''`ignorePath`''"
    "includes_str reportUnusedDisableDirectives_message ''`reportUnusedDisableDirectives`''"
    unfolding includes_str_def useEslintrc_message_def resolvePluginsRelativeTo_message_def
      ignorePath_message_def reportUnusedDisableDirectives_message_def
    by code_simp+
  have pointer: "list_all
     (\<lambda>m. includes_str m
        ''See https://eslint.org/docs/latest/use/configure/configuration-files-new'')
     [useEslintrc_message, resolvePluginsRelativeTo_message, ignorePath_message,
      reportUnusedDisableDirectives_message]"
    unfolding includes_str_def useEslintrc_message_def resolvePluginsRelativeTo_message_def
      ignorePath_message_def reportUnusedDisableDirectives_message_def
    by code_simp
  from fails first differ names pointer show ?thesis
    by (intro conjI impI) (simp_all only: if_True if_False simp_thms)
qed

text \<open>
  The three calls of the repository's test of invalid options, and the fourth option.
\<close>

theorem flat_rejects_legacy_only_options_witness:
  "resolveAndInstantiateESLint (example_world (Some ''8.57.0'') [] (Inr []) [])
     None (emptySchema\<lparr>useEslintrc := Value False\<rparr>) True = Inl (Error useEslintrc_message) \<and>
   resolveAndInstantiateESLint (example_world (Some ''8.57.0'') [] (Inr []) [])
     None (emptySchema\<lparr>resolvePluginsRelativeTo := Value ''./some-path''\<rparr>) True =
     Inl (Error resolvePluginsRelativeTo_message) \<and>
   resolveAndInstantiateESLint (example_world (Some ''8.57.0'') [] (Inr []) [])
     None (emptySchema\<lparr>ignorePath := Value ''./some-path''\<rparr>) True =
     Inl (Error ignorePath_message) \<and>
   resolveAndInstantiateESLint (example_world (Some ''8.57.0'') [] (Inr []) [])
     None (emptySchema\<lparr>reportUnusedDisableDirectives := Value ''warn''\<rparr>) True =
     Inl (Error reportUnusedDisableDirectives_message)"
proof -
  let ?w = "example_world (Some ''8.57.0'') [] (Inr []) []"
  have n: "\<not> config_name_rejected None True"
    by (simp add: config_name_rejected_def)
  note c = example_class [of "Some ''8.57.0''" "[]" "Inr []" "[]" True]
  note t = flat_rejects_legacy_only_options
    [where w = ?w and path = None and cls = "\<lparr> version = Some ''8.57.0'' \<rparr>"]
  from t [of "emptySchema\<lparr>useEslintrc := Value False\<rparr>"] n c
  have 1: "resolveAndInstantiateESLint ?w None (emptySchema\<lparr>useEslintrc := Value False\<rparr>) True =
      Inl (Error useEslintrc_message)"
    by simp
  from t [of "emptySchema\<lparr>resolvePluginsRelativeTo := Value ''./some-path''\<rparr>"] n c
  have 2: "resolveAndInstantiateESLint ?w None
      (emptySchema\<lparr>resolvePluginsRelativeTo := Value ''./some-path''\<rparr>) True =
      Inl (Error resolvePluginsRelativeTo_message)"
    by (simp add: emptySchema_def)
  from t [of "emptySchema\<lparr>ignorePath := Value ''./some-path''\<rparr>"] n c
  have 3: "resolveAndInstantiateESLint ?w None
      (emptySchema\<lparr>ignorePath := Value ''./some-path''\<rparr>) True = Inl (Error ignorePath_message)"
    by (simp add: emptySchema_def)
  from t [of "emptySchema\<lparr>reportUnusedDisableDirectives := Value ''warn''\<rparr>"] n c
  have 4: "resolveAndInstantiateESLint ?w None
      (emptySchema\<lparr>reportUnusedDisableDirectives := Value ''warn''\<rparr>) True =
      Inl (Error reportUnusedDisableDirectives_message)"
    by (simp add: emptySchema_def)
  from 1 2 3 4 show ?thesis by blast
qed

text \<open>
  Claim C4, as stated, has the error name the option that is set. With an eslintrc path
  the error is the one of the configuration file name, which names none of the four
  options; and with \<open>useEslintrc\<close> and \<open>ignorePath\<close> both set the error names
  \<open>useEslintrc\<close> only.
\<close>

theorem flat_rejects_legacy_only_options_counterexample:
  "resolveAndInstantiateESLint (example_world (Some ''8.57.0'') [] (Inr []) [])
     (Some ''./.eslintrc.json'') (emptySchema\<lparr>useEslintrc := Value False\<rparr>) True =
     Inl (Error config_name_message) \<and>
   includes_str config_name_message ''useEslintrc'' = False \<and>
   resolveAndInstantiateESLint (example_world (Some ''8.57.0'') [] (Inr []) [])
     None (emptySchema\<lparr>useEslintrc := Value False, ignorePath := Value ''./some-path''\<rparr>) True =
     Inl (Error useEslintrc_message) \<and>
   includes_str useEslintrc_message ''ignorePath'' = False"
proof -
  have rc: "\<not> list_ex (\<lambda>name. endsWith ''./.eslintrc.json'' name) supportedFlatConfigNames"
    unfolding supportedFlatConfigNames_def endsWith_def by code_simp
  then have 1: "resolveAndInstantiateESLint (example_world (Some ''8.57.0'') [] (Inr []) [])
     (Some ''./.eslintrc.json'') (emptySchema\<lparr>useEslintrc := Value False\<rparr>) True =
     Inl (Error config_name_message)"
    by (simp add: resolveAndInstantiateESLint_def config_name_rejected_def emptySchema_def)
  have 2: "includes_str config_name_message ''useEslintrc'' = False"
    unfolding config_name_message_text includes_str_def by code_simp
  have 3: "resolveAndInstantiateESLint (example_world (Some ''8.57.0'') [] (Inr []) [])
     None (emptySchema\<lparr>useEslintrc := Value False, ignorePath := Value ''./some-path''\<rparr>) True =
     Inl (Error useEslintrc_message)"
    by (simp add: resolveAndInstantiateESLint_def config_name_rejected_def emptySchema_def
        example_class)
  have 4: "includes_str useEslintrc_message ''ignorePath'' = False"
    unfolding useEslintrc_message_def includes_str_def by code_simp
  from 1 2 3 4 show ?thesis by blast
qed

subsection \<open>The handler\<close>




text \<open>
  Claim C8. Once the resolver has returned the engine class, the handler reads its
  version. When the version is absent, or has fewer than two components between its dots,
  or its first component is a number below 7, or is 7 with the second component a number
  below 6, the run fails with the message that ESLint must be version 7.6 or higher; up
  to then the handler has changed the working directory and printed at most its first
  line: it has not run the lint pass, written fixes, made a directory or written a file.
\<close>

theorem version_gate:
  assumes "instantiate w options ctxt = Inr inst"
    and "case version (ESLint inst) of
           None \<Rightarrow> True
         | Some v \<Rightarrow>
             length (split_str (CHR ''.'') v) < 2 \<or>
             (\<exists>major. Number w (split_str (CHR ''.'') v ! 0) = Some major \<and>
                (major < 7 \<or>
                 (major = 7 \<and>
                  (\<exists>minor. Number w (split_str (CHR ''.'') v ! 1) = Some minor \<and> minor < 6))))"
  shows "snd (handler w options ctxt) =
           \<lparr> success = False,
             error = Some ''Error when running ESLint: ESLint must be version 7.6 or higher.'' \<rparr> \<and>
         fst (handler w options ctxt) = start_effects w options ctxt \<and>
         list_ex lints_or_writes (fst (handler w options ctxt)) = False"
proof -
  have "version_rejected w (ESLint inst)"
  proof (cases "version (ESLint inst)")
    case None
    then show ?thesis by (simp add: version_rejected_def)
  next
    case (Some v)
    show ?thesis
    proof (cases "split_str (CHR ''.'') v")
      case Nil
      with Some show ?thesis by (simp add: version_rejected_def)
    next
      case (Cons major rest)
      note outer = this
      show ?thesis
      proof (cases rest)
        case Nil
        with Some outer show ?thesis by (simp add: version_rejected_def)
      next
        case (Cons minor rest')
        with Some outer assms(2) show ?thesis
          by (auto simp: version_rejected_def number_lt_def number_eq_def)
      qed
    qed
  qed
  from handler_version_rejected [OF assms(1) this] show ?thesis
    by (simp add: version_message_def start_effects_def)
qed

text \<open>
  The scenario of the specification: an engine of version 7.5.0, and a lint pass that
  would have reported an error.
\<close>

theorem version_gate_witness:
  "handler (example_world (Some ''7.5.0'') [] (Inr [example_result ''src/a.ts'' 1 0]) [])
      (emptySchema\<lparr>lintFilePatterns := [''src/a.ts'']\<rparr>) example_context =
     ([Chdir ''/work''],
      \<lparr> success = False,
        error = Some ''Error when running ESLint: ESLint must be version 7.6 or higher.'' \<rparr>)"
proof -
  let ?w = "example_world (Some ''7.5.0'') [] (Inr [example_result ''src/a.ts'' 1 0]) []"
  let ?o = "emptySchema\<lparr>lintFilePatterns := [''src/a.ts'']\<rparr>"
  have ns: "\<not> stats ?o" by (simp add: emptySchema_def)
  from example_instantiate_legacy [OF ns] obtain inst
    where i: "instantiate ?w ?o example_context = Inr inst"
      and c: "ESLint inst = \<lparr> version = Some ''7.5.0'' \<rparr>"
    by blast
  have g: "case version (ESLint inst) of
           None \<Rightarrow> True
         | Some v \<Rightarrow>
             length (split_str (CHR ''.'') v) < 2 \<or>
             (\<exists>major. Number ?w (split_str (CHR ''.'') v ! 0) = Some major \<and>
                (major < 7 \<or>
                 (major = 7 \<and>
                  (\<exists>minor. Number ?w (split_str (CHR ''.'') v ! 1) = Some minor \<and> minor < 6))))"
    unfolding c by (simp add: example_world_def decimal_Number_def is_digit_def)
  from version_gate [OF i g] show ?thesis
    by (cases "handler ?w ?o example_context")
      (simp add: start_effects_def printInfo_def emptySchema_def example_context_def)
qed

text \<open>
  Claim C9, as amended. The path shown in the message about missing type information is
  looked up in a fixed order, whatever the format in use (the lookup takes the project root
  only): \<^verbatim>\<open>.eslintrc.json\<close> first, then three flat config names, \<^verbatim>\<open>eslint.config.js\<close>,
  \<^verbatim>\<open>eslint.config.mjs\<close> and \<^verbatim>\<open>eslint.config.cjs\<close>. The result is the first of these
  four files that exists under the project root, and null when none of them exists.
\<close>

theorem resolveESLintConfigPath_order:
  "resolveESLintConfigPath w projectRoot =
     find (existsSync w)
       (map (path_join w projectRoot)
          [''.eslintrc.json'', ''eslint.config.js'', ''eslint.config.mjs'',
           ''eslint.config.cjs''])"
  by (simp add: resolveESLintConfigPath_def Let_def)

text \<open>
  A project with a flat config file at the workspace root, and with both an eslintrc file
  and a flat config file of its own: the eslintrc file is the one found.
\<close>

theorem resolveESLintConfigPath_order_witness:
  "resolveESLintConfigPath
     (example_world (Some ''8.57.0'')
        [''/work/eslint.config.js'', ''/work/app/eslint.config.mjs'',
         ''/work/app/.eslintrc.json''] (Inr []) [])
     ''/work/app'' = Some ''/work/app/.eslintrc.json'' \<and>
   useFlatConfig
     (example_world (Some ''8.57.0'')
        [''/work/eslint.config.js'', ''/work/app/eslint.config.mjs'',
         ''/work/app/.eslintrc.json''] (Inr []) [])
     example_context = True"
proof -
  have "useFlatConfig
     (example_world (Some ''8.57.0'')
        [''/work/eslint.config.js'', ''/work/app/eslint.config.mjs'',
         ''/work/app/.eslintrc.json''] (Inr []) [])
     example_context = True"
    by (simp add: useFlatConfig_def example_world_def example_context_def
        supportedFlatConfigNames_def)
  then show ?thesis
    using resolveESLintConfigPath_order
      [of "example_world (Some ''8.57.0'')
        [''/work/eslint.config.js'', ''/work/app/eslint.config.mjs'',
         ''/work/app/.eslintrc.json''] (Inr []) []" "''/work/app''"]
    by (simp add: example_world_def)
qed

text \<open>
  Claim C9, as stated, has four flat config names follow \<^verbatim>\<open>.eslintrc.json\<close> in the lookup.
  Of the six supported flat config names, the three that end in \<^verbatim>\<open>ts\<close> are not looked
  up: a project whose only configuration file has one of these names resolves to null.
\<close>

theorem resolveESLintConfigPath_order_counterexample:
  "resolveESLintConfigPath
     (example_world (Some ''8.57.0'') [''/work/app/eslint.config.ts''] (Inr []) [])
     ''/work/app'' = None \<and>
   resolveESLintConfigPath
     (example_world (Some ''8.57.0'') [''/work/app/eslint.config.mts''] (Inr []) [])
     ''/work/app'' = None \<and>
   resolveESLintConfigPath
     (example_world (Some ''8.57.0'') [''/work/app/eslint.config.cts''] (Inr []) [])
     ''/work/app'' = None \<and>
   supportedFlatConfigNames =
     [''eslint.config.js'', ''eslint.config.mjs'', ''eslint.config.cjs'',
      ''eslint.config.ts'', ''eslint.config.mts'', ''eslint.config.cts'']"
  by (simp add: resolveESLintConfigPath_def example_world_def supportedFlatConfigNames_def)

end
